theory Spec2Isabelle
  imports Main "HOL-Library.Word"
begin

section \<open>Sending streamer infos over a socket (net/net/src/TSocket.cxx)\<close>

text \<open>
  The part of a \<^verbatim>\<open>TStreamerInfo\<close> that \<^verbatim>\<open>TSocket::SendStreamerInfos\<close> reads: its name, its
  class version and its unique number \<^verbatim>\<open>fNumber\<close> (an \<^verbatim>\<open>Int_t\<close>).
\<close>

record TStreamerInfo_id =
  fName :: string
  fClassVersion :: int
  fNumber :: "32 word"

text \<open>
  The kinds of message the function tells apart. The numeric values of the enumeration are
  not used by the function.
\<close>

datatype EMessageTypes = kMESS_STREAMERINFO | kMESS_ANY nat

text \<open>
  A \<^verbatim>\<open>TMessage\<close>: its kind, whether it is in reading mode, the list \<^verbatim>\<open>fInfos\<close> of the
  descriptors of the classes streamed into it (a \<^verbatim>\<open>TList*\<close>, possibly null) and, for a
  message of kind \<^verbatim>\<open>kMESS_STREAMERINFO\<close>, the list of descriptors written into it with
  \<^verbatim>\<open>WriteObject(minilist)\<close>.
\<close>

record TMessage =
  fWhat :: EMessageTypes
  IsReading :: bool
  fInfos :: "TStreamerInfo_id list option"
  fObject :: "TStreamerInfo_id list"

text \<open>
  Who built a message that reaches the system's \<^verbatim>\<open>SendRaw\<close>: the caller of \<^verbatim>\<open>Send\<close>, or
  \<^verbatim>\<open>SendStreamerInfos\<close> (its \<^verbatim>\<open>messinfo\<close>).
\<close>

datatype origin = ByCaller | BySendStreamerInfos

text \<open>
  Modelled from the spec: the class \<^verbatim>\<open>TBits\<close> is not in the sources, and the spec does not
  describe it. It is taken to be what its name and the comment at its use
  (\<^verbatim>\<open>TStreamerInfo had already been sent\<close>) say, a bit set, held here as the set of the bit
  numbers that are set: \<^verbatim>\<open>TestBitNumber\<close> tells whether a bit is set, \<^verbatim>\<open>SetBitNumber\<close> sets
  it, and a default constructed \<^verbatim>\<open>TBits\<close> has no bit set.
\<close>

type_synonym TBits = "nat set"

definition TestBitNumber :: "TBits \<Rightarrow> nat \<Rightarrow> bool" where
  "TestBitNumber bits bitnumber = (bitnumber \<in> bits)"

definition SetBitNumber :: "TBits \<Rightarrow> nat \<Rightarrow> TBits" where
  "SetBitNumber bits bitnumber = insert bitnumber bits"

text \<open>
  A \<^verbatim>\<open>TSocket\<close>: the descriptor \<^verbatim>\<open>fSocket\<close>, the bit set \<^verbatim>\<open>fBitsInfo\<close> and the messages
  handed to the system's \<^verbatim>\<open>SendRaw\<close> so far, oldest first, each with who built it.
\<close>

record TSocket =
  fSocket :: int
  fBitsInfo :: TBits
  fWire :: "(origin \<times> TMessage) list"

text \<open>
  Every constructor of \<^verbatim>\<open>TSocket\<close> leaves \<^verbatim>\<open>fBitsInfo\<close> default constructed, with no bit set.
\<close>

definition TSocket_new :: "int \<Rightarrow> TSocket" where
  "TSocket_new fd = \<lparr>fSocket = fd, fBitsInfo = {}, fWire = []\<rparr>"

text \<open>
  The \<^verbatim>\<open>while ((info = next()))\<close> loop of \<^verbatim>\<open>SendStreamerInfos\<close>. The loop state is the bit
  set and \<^verbatim>\<open>minilist\<close>, which is null until the first descriptor is added. \<^verbatim>\<open>uid\<close> is an
  \<^verbatim>\<open>Int_t\<close> passed to \<^verbatim>\<open>TestBitNumber(UInt_t)\<close>: the bit number is the unsigned reading of
  the same 32 bits.
\<close>

fun collect_infos ::
  "TStreamerInfo_id list \<Rightarrow> TBits \<Rightarrow> TStreamerInfo_id list option
    \<Rightarrow> TBits \<times> TStreamerInfo_id list option" where
  "collect_infos [] bits minilist = (bits, minilist)"
| "collect_infos (info # rest) bits minilist =
     (let uid = unat (fNumber info) in
      if TestBitNumber bits uid then collect_infos rest bits minilist
      else collect_infos rest (SetBitNumber bits uid)
             (Some ((case minilist of None \<Rightarrow> [] | Some l \<Rightarrow> l) @ [info])))"

text \<open>
  \<^verbatim>\<open>TSocket::Send(const TMessage &)\<close>, with the function it calls first and the builder of
  the message as parameters: the two early returns, then the streamer infos, then the
  message itself goes to \<^verbatim>\<open>SendRaw\<close>, whatever \<^verbatim>\<open>SendRaw\<close> then returns. \<^verbatim>\<open>SendProcessIDs\<close>
  builds messages of kind \<^verbatim>\<open>kMESS_PROCESSID\<close> only and does not itself read or write
  \<^verbatim>\<open>fBitsInfo\<close>; the \<^verbatim>\<open>Send(messpid)\<close> it may nest is one more \<^verbatim>\<open>Send\<close> on the same socket. It
  is left out, and so are the byte counters and the acknowledgement.
\<close>

definition Send_with ::
  "(TMessage \<Rightarrow> TSocket \<Rightarrow> TSocket) \<Rightarrow> origin \<Rightarrow> TMessage \<Rightarrow> TSocket \<Rightarrow> TSocket" where
  "Send_with sendInfos who mess s =
     (if fSocket s < 0 then s
      else if IsReading mess then s
      else (let s1 = sendInfos mess s in s1\<lparr>fWire := fWire s1 @ [(who, mess)]\<rparr>))"

text \<open>
  The message \<^verbatim>\<open>messinfo\<close> built from \<^verbatim>\<open>minilist\<close>; its own \<^verbatim>\<open>fInfos\<close> has been cleared
  before it is sent.
\<close>

definition messinfo :: "TStreamerInfo_id list \<Rightarrow> TMessage" where
  "messinfo minilist =
     \<lparr>fWhat = kMESS_STREAMERINFO, IsReading = False, fInfos = Some [], fObject = minilist\<rparr>"

text \<open>
  \<^verbatim>\<open>TSocket::SendStreamerInfos\<close>. The nested \<^verbatim>\<open>Send(messinfo)\<close> calls \<^verbatim>\<open>SendStreamerInfos\<close>
  again, on a message whose \<^verbatim>\<open>fInfos\<close> is empty, where it returns at once; the nested call
  is therefore \<open>Send_with\<close> of the function that does nothing
  (lemma \<open>SendStreamerInfos_messinfo\<close> below).
\<close>

definition SendStreamerInfos :: "TMessage \<Rightarrow> TSocket \<Rightarrow> TSocket" where
  "SendStreamerInfos mess s =
     (case fInfos mess of
        None \<Rightarrow> s
      | Some infos \<Rightarrow>
          if infos = [] then s
          else (case collect_infos infos (fBitsInfo s) None of
                  (bits, None) \<Rightarrow> s\<lparr>fBitsInfo := bits\<rparr>
                | (bits, Some minilist) \<Rightarrow>
                    Send_with (\<lambda>m t. t) BySendStreamerInfos (messinfo minilist)
                      (s\<lparr>fBitsInfo := bits\<rparr>)))"

definition Send :: "TMessage \<Rightarrow> TSocket \<Rightarrow> TSocket" where
  "Send mess s = Send_with SendStreamerInfos ByCaller mess s"

text \<open>A socket's lifetime: the messages sent on it, in order.\<close>

fun Send_all :: "TMessage list \<Rightarrow> TSocket \<Rightarrow> TSocket" where
  "Send_all [] s = s"
| "Send_all (m # ms) s = Send_all ms (Send m s)"

text \<open>The numbers of a list of descriptors, as bit numbers.\<close>

definition uids :: "TStreamerInfo_id list \<Rightarrow> nat list" where
  "uids l = map (\<lambda>info. unat (fNumber info)) l"

text \<open>
  The numbers of the descriptors that \<^verbatim>\<open>SendStreamerInfos\<close> has put on the wire in its
  \<^verbatim>\<open>kMESS_STREAMERINFO\<close> messages, in the order sent.
\<close>

fun sent_uids :: "(origin \<times> TMessage) list \<Rightarrow> nat list" where
  "sent_uids [] = []"
| "sent_uids ((who, m) # ms) =
     (if who = BySendStreamerInfos \<and> fWhat m = kMESS_STREAMERINFO then uids (fObject m)
      else [])
     @ sent_uids ms"

text \<open>The content of \<^verbatim>\<open>minilist\<close>, empty while the pointer is null.\<close>

definition minilist_infos :: "TStreamerInfo_id list option \<Rightarrow> TStreamerInfo_id list" where
  "minilist_infos m = (case m of None \<Rightarrow> [] | Some l \<Rightarrow> l)"

text \<open>
  The invariant of a socket: no number occurs twice in what \<^verbatim>\<open>SendStreamerInfos\<close> has sent,
  and every number sent has its bit set.
\<close>

definition sock_inv :: "TSocket \<Rightarrow> bool" where
  "sock_inv s = (distinct (sent_uids (fWire s)) \<and> set (sent_uids (fWire s)) \<subseteq> fBitsInfo s)"

section \<open>Compiled action sequences of a streamer info (io/io/inc/TStreamerInfo.h)\<close>

type_synonym byte = "8 word"

text \<open>
  Modelled from the spec: the primitive kinds of an element's semantic type tag. The
  enumeration \<^verbatim>\<open>TVirtualStreamerInfo::EReadWrite\<close> that lists them is not in the sources;
  the spec names \<^verbatim>\<open>int\<close>, \<^verbatim>\<open>float\<close> and \<^verbatim>\<open>double\<close> members. Each kind has the width in
  bytes of one value.
\<close>

datatype prim = kBool | kChar | kShort | kInt | kLong | kFloat | kDouble

fun prim_size :: "prim \<Rightarrow> nat" where
  "prim_size kBool = 1"
| "prim_size kChar = 1"
| "prim_size kShort = 2"
| "prim_size kInt = 4"
| "prim_size kLong = 8"
| "prim_size kFloat = 4"
| "prim_size kDouble = 8"

text \<open>
  Modelled from the spec: the class \<^verbatim>\<open>TStreamerElement\<close> is only forward declared in the
  sources. The spec's ElementDescriptor has a semantic type tag (primitive kind, object,
  pointer-to-object, fixed array, STL-like collection, base class), the byte offset within
  the owning class, the element count (for arrays), the nested type reference and the
  transient flag.
\<close>

datatype type_tag =
    Primitive prim
  | Object
  | PointerToObject
  | FixedArray prim
  | Collection
  | BaseClass

record ElementDescriptor =
  eName :: string
  eType :: type_tag
  eOffset :: nat
  eLength :: nat
  eNested :: string
  eTransient :: bool

text \<open>
  Modelled from the spec: the class \<^verbatim>\<open>TStreamerInfoActions::TActionSequence\<close> is only
  forward declared in the sources. The spec's Action is a tagged variant over
  copy-primitive, copy-primitive-array, read/write-nested-object, read/write-fixed-collection,
  read/write-variable-collection, skip and artificial; each action binds the target offset
  and the element type and length, and, for nested types, the reference to the nested class
  (for a pointer element, with the flag that a null sentinel is handled).
\<close>

datatype Action =
    CopyPrimitive prim nat
  | CopyPrimitiveArray prim nat nat
  | NestedObject nat string bool
  | FixedCollection nat string nat
  | VariableCollection nat string
  | Skip nat
  | Artificial nat

text \<open>
  The fields of \<^verbatim>\<open>TStreamerInfo\<close> that hold the element list and the two compiled lists:
  \<^verbatim>\<open>fNdata\<close>, the number of optimized elements, \<^verbatim>\<open>fNfulldata\<close>, the number of elements,
  \<^verbatim>\<open>fCompOpt\<close> (\<^verbatim>\<open>[fNdata]\<close>), \<^verbatim>\<open>fCompFull\<close> (one entry per element) and \<^verbatim>\<open>fElements\<close>.
\<close>

record TStreamerInfo =
  fNdata :: nat
  fNfulldata :: nat
  fCompOpt :: "Action list"
  fCompFull :: "Action list"
  fElements :: "ElementDescriptor list"

text \<open>
  Modelled from the spec: the body of \<^verbatim>\<open>TStreamerInfo::Compile\<close> is not in the sources.
  The action compiler walks the element list and selects one action per element: a plain
  copy for a primitive or an array of primitives, nested-object recursion for an object, a
  base class or a pointer, collection-adapter dispatch for a collection. \<^verbatim>\<open>fCompFull\<close> has
  one entry for each entry of \<^verbatim>\<open>fElements\<close>, in declaration order.
\<close>

fun element_action :: "ElementDescriptor \<Rightarrow> Action" where
  "element_action e =
     (case eType e of
        Primitive k \<Rightarrow> CopyPrimitive k (eOffset e)
      | Object \<Rightarrow> NestedObject (eOffset e) (eNested e) False
      | PointerToObject \<Rightarrow> NestedObject (eOffset e) (eNested e) True
      | FixedArray k \<Rightarrow> CopyPrimitiveArray k (eOffset e) (eLength e)
      | Collection \<Rightarrow> VariableCollection (eOffset e) (eNested e)
      | BaseClass \<Rightarrow> NestedObject (eOffset e) (eNested e) False)"

definition compile_full :: "ElementDescriptor list \<Rightarrow> Action list" where
  "compile_full elems = map element_action elems"

text \<open>
  Modelled from the spec: contiguous runs of primitive elements of the same type are fused
  into a single array-copy action. \<open>fuse_run k off n\<close> holds the run collected so far:
  \<open>n\<close> values of kind \<open>k\<close> from offset \<open>off\<close> on. The next copy of a primitive joins
  the run when it has the same kind and starts where the run ends in memory; anything else
  closes the run. A run of one element stays a copy of a primitive.
\<close>

definition emit_run :: "prim \<Rightarrow> nat \<Rightarrow> nat \<Rightarrow> Action" where
  "emit_run k off n = (if n = 1 then CopyPrimitive k off else CopyPrimitiveArray k off n)"

fun fuse :: "Action list \<Rightarrow> Action list"
  and fuse_run :: "prim \<Rightarrow> nat \<Rightarrow> nat \<Rightarrow> Action list \<Rightarrow> Action list" where
  "fuse [] = []"
| "fuse (CopyPrimitive k off # rest) = fuse_run k off 1 rest"
| "fuse (a # rest) = a # fuse rest"
| "fuse_run k off n [] = [emit_run k off n]"
| "fuse_run k off n (CopyPrimitive k' off' # rest) =
     (if k' = k \<and> off' = off + n * prim_size k then fuse_run k off (Suc n) rest
      else emit_run k off n # fuse_run k' off' 1 rest)"
| "fuse_run k off n (a # rest) = emit_run k off n # a # fuse rest"

definition Compile :: "TStreamerInfo \<Rightarrow> TStreamerInfo" where
  "Compile info =
     (let full = compile_full (fElements info); opt = fuse full in
      info\<lparr>fNdata := length opt, fNfulldata := length full,
           fCompOpt := opt, fCompFull := full\<rparr>)"

text \<open>
  Modelled from the spec: the body of \<^verbatim>\<open>TStreamerInfo::WriteBufferAux\<close> is not in the
  sources. The buffer cursor normalizes the byte order of a value to network order; an
  instance is a byte list \<open>mem\<close>, held in the order of a little-endian host. Copying a
  value out of an instance fails (\<open>None\<close>) when the value does not lie inside it.
\<close>

definition to_network :: "byte list \<Rightarrow> byte list" where
  "to_network bs = rev bs"

definition copy_out :: "prim \<Rightarrow> nat \<Rightarrow> byte list \<Rightarrow> byte list option" where
  "copy_out k off mem =
     (if off + prim_size k \<le> length mem
      then Some (to_network (take (prim_size k) (drop off mem)))
      else None)"

text \<open>The output of two steps, one after the other; a failed step fails the whole.\<close>

definition append_out :: "byte list option \<Rightarrow> byte list option \<Rightarrow> byte list option" where
  "append_out a b =
     (case a of
        None \<Rightarrow> None
      | Some bs \<Rightarrow> (case b of None \<Rightarrow> None | Some cs \<Rightarrow> Some (bs @ cs)))"

text \<open>The array copy: \<open>n\<close> values of one kind, one after the other in memory.\<close>

fun copy_out_array :: "prim \<Rightarrow> nat \<Rightarrow> nat \<Rightarrow> byte list \<Rightarrow> byte list option" where
  "copy_out_array k off 0 mem = Some []"
| "copy_out_array k off (Suc n) mem =
     append_out (copy_out k off mem) (copy_out_array k (off + prim_size k) n mem)"

text \<open>
  One action against one instance, whose start is located by \<open>eoffset\<close>. What a
  nested-object, collection, skip or artificial action writes is decided by the nested
  descriptors, the collection adapters and the evolution rules; it is the parameter \<open>w\<close>.
  The spec names the parameter \<^verbatim>\<open>mode\<close> without saying what it selects: it is handed to
  \<open>w\<close> unchanged.
\<close>

fun write_action ::
  "(Action \<Rightarrow> int \<Rightarrow> nat \<Rightarrow> byte list \<Rightarrow> byte list option) \<Rightarrow> int \<Rightarrow> nat \<Rightarrow> Action
    \<Rightarrow> byte list \<Rightarrow> byte list option" where
  "write_action w mode eoffset (CopyPrimitive k off) mem = copy_out k (eoffset + off) mem"
| "write_action w mode eoffset (CopyPrimitiveArray k off n) mem =
     copy_out_array k (eoffset + off) n mem"
| "write_action w mode eoffset a mem = w a mode eoffset mem"

text \<open>
  One action against the instance \<^verbatim>\<open>arr[k]\<close>. \<open>arr\<close> is the array of instances; an index
  beyond it reads outside the array and fails.
\<close>

definition write_instance ::
  "(Action \<Rightarrow> int \<Rightarrow> nat \<Rightarrow> byte list \<Rightarrow> byte list option) \<Rightarrow> int \<Rightarrow> nat \<Rightarrow> byte list list
    \<Rightarrow> Action \<Rightarrow> nat \<Rightarrow> byte list option" where
  "write_instance w mode eoffset arr a k =
     (if k < length arr then write_action w mode eoffset a (arr ! k) else None)"

text \<open>One action against the instances with the indices \<open>ks\<close>, in this order.\<close>

fun write_each ::
  "(Action \<Rightarrow> int \<Rightarrow> nat \<Rightarrow> byte list \<Rightarrow> byte list option) \<Rightarrow> int \<Rightarrow> nat \<Rightarrow> byte list list
    \<Rightarrow> Action \<Rightarrow> nat list \<Rightarrow> byte list option" where
  "write_each w mode eoffset arr a [] = Some []"
| "write_each w mode eoffset arr a (k # ks) =
     append_out (write_instance w mode eoffset arr a k) (write_each w mode eoffset arr a ks)"

text \<open>
  A compiled list executed against \<open>narr\<close> instances: the actions in order, each one
  written for all the instances before the next action starts (member by member).
\<close>

fun write_actions ::
  "(Action \<Rightarrow> int \<Rightarrow> nat \<Rightarrow> byte list \<Rightarrow> byte list option) \<Rightarrow> int \<Rightarrow> nat \<Rightarrow> byte list list
    \<Rightarrow> nat \<Rightarrow> Action list \<Rightarrow> byte list option" where
  "write_actions w mode eoffset arr narr [] = Some []"
| "write_actions w mode eoffset arr narr (a # as) =
     append_out (write_each w mode eoffset arr a [0..<narr])
       (write_actions w mode eoffset arr narr as)"

text \<open>
  \<^verbatim>\<open>WriteBufferAux(b, arr, compinfo, first, last, narr, eoffset, mode)\<close>: the actions from
  index \<open>first_ix\<close> up to, not including, index \<open>last_ix\<close> of the compiled list
  \<open>compinfo\<close>, against the \<open>narr\<close> instances of \<open>arr\<close>; the bytes produced go to the end
  of the buffer \<open>b\<close>.
\<close>

definition WriteBufferAux ::
  "(Action \<Rightarrow> int \<Rightarrow> nat \<Rightarrow> byte list \<Rightarrow> byte list option) \<Rightarrow> byte list \<Rightarrow> byte list list
    \<Rightarrow> Action list \<Rightarrow> nat \<Rightarrow> nat \<Rightarrow> nat \<Rightarrow> nat \<Rightarrow> int \<Rightarrow> byte list option" where
  "WriteBufferAux w b arr compinfo first_ix last_ix narr eoffset mode =
     append_out (Some b)
       (write_actions w mode eoffset arr narr
          (take (last_ix - first_ix) (drop first_ix compinfo)))"



section \<open>Proofs: streamer infos on a socket\<close>

lemma collect_infos_inv:
  "collect_infos infos bits mini = (bits', mini') \<Longrightarrow>
   \<exists>new. minilist_infos mini' = minilist_infos mini @ new \<and>
         bits' = bits \<union> set (uids new) \<and>
         distinct (uids new) \<and>
         bits \<inter> set (uids new) = {} \<and>
         (mini' = None \<longrightarrow> new = [])"
proof (induction infos bits mini arbitrary: bits' mini' rule: collect_infos.induct)
  case (1 bits minilist)
  then show ?case by (simp add: uids_def)
next
  case (2 info rest bits minilist)
  show ?case
  proof (cases "unat (fNumber info) \<in> bits")
    case True
    with 2 show ?thesis by (simp add: Let_def TestBitNumber_def)
  next
    case False
    let ?m = "Some ((case minilist of None \<Rightarrow> [] | Some l \<Rightarrow> l) @ [info])"
    have t: "\<not> TestBitNumber bits (unat (fNumber info))"
      using False by (simp add: TestBitNumber_def)
    from 2(3) t
    have c: "collect_infos rest (SetBitNumber bits (unat (fNumber info))) ?m = (bits', mini')"
      by (simp add: Let_def)
    from 2(2)[OF refl t c] obtain new where
      n: "minilist_infos mini' = minilist_infos ?m @ new"
         "bits' = insert (unat (fNumber info)) bits \<union> set (uids new)"
         "distinct (uids new)"
         "insert (unat (fNumber info)) bits \<inter> set (uids new) = {}"
      unfolding SetBitNumber_def by blast
    have "minilist_infos mini' = minilist_infos minilist @ (info # new)"
      using n(1) by (simp add: minilist_infos_def split: option.splits)
    moreover have "bits' = bits \<union> set (uids (info # new))"
      using n(2) by (auto simp: uids_def)
    moreover have "distinct (uids (info # new))"
      using n(3,4) by (auto simp: uids_def)
    moreover have "bits \<inter> set (uids (info # new)) = {}"
      using n(4) False by (auto simp: uids_def)
    moreover have "mini' \<noteq> None"
      using n(1) by (auto simp: minilist_infos_def split: option.splits)
    ultimately show ?thesis by blast
  qed
qed

lemma sent_uids_append: "sent_uids (xs @ ys) = sent_uids xs @ sent_uids ys"
  by (induction xs rule: sent_uids.induct) auto

lemma SendStreamerInfos_messinfo: "SendStreamerInfos (messinfo l) s = s"
  by (simp add: SendStreamerInfos_def messinfo_def)

lemma SendStreamerInfos_step:
  "\<exists>new. fWire (SendStreamerInfos m s) = fWire s @ new \<and>
         distinct (sent_uids new) \<and>
         fBitsInfo s \<inter> set (sent_uids new) = {} \<and>
         fBitsInfo s \<union> set (sent_uids new) \<subseteq> fBitsInfo (SendStreamerInfos m s) \<and>
         fSocket (SendStreamerInfos m s) = fSocket s"
proof (cases "fInfos m")
  case None
  then show ?thesis by (simp add: SendStreamerInfos_def)
next
  case (Some infos)
  show ?thesis
  proof (cases "infos = []")
    case True
    with Some show ?thesis by (simp add: SendStreamerInfos_def)
  next
    case False
    obtain bits mini where c: "collect_infos infos (fBitsInfo s) None = (bits, mini)"
      by (cases "collect_infos infos (fBitsInfo s) None")
    from collect_infos_inv[OF c] obtain new where
      n: "minilist_infos mini = new" "bits = fBitsInfo s \<union> set (uids new)"
         "distinct (uids new)" "fBitsInfo s \<inter> set (uids new) = {}"
      by (auto simp: minilist_infos_def)
    show ?thesis
    proof (cases mini)
      case None
      with Some False c n show ?thesis
        by (simp add: SendStreamerInfos_def)
    next
      case (Some l)
      with n(1) have l: "l = new" by (simp add: minilist_infos_def)
      have u: "sent_uids [(BySendStreamerInfos, messinfo new)] = uids new"
        by (simp add: messinfo_def uids_def)
      show ?thesis
      proof (cases "fSocket s < 0")
        case True
        with \<open>fInfos m = Some infos\<close> False c Some n show ?thesis
          by (simp add: SendStreamerInfos_def Send_with_def)
      next
        case nonneg: False
        have "fWire (SendStreamerInfos m s) = fWire s @ [(BySendStreamerInfos, messinfo new)]"
          using \<open>fInfos m = Some infos\<close> False c Some l nonneg
          by (simp add: SendStreamerInfos_def Send_with_def messinfo_def)
        moreover have "fBitsInfo (SendStreamerInfos m s) = bits"
          using \<open>fInfos m = Some infos\<close> False c Some l nonneg
          by (simp add: SendStreamerInfos_def Send_with_def messinfo_def)
        moreover have "fSocket (SendStreamerInfos m s) = fSocket s"
          using \<open>fInfos m = Some infos\<close> False c Some l nonneg
          by (simp add: SendStreamerInfos_def Send_with_def messinfo_def)
        ultimately show ?thesis using n u by auto
      qed
    qed
  qed
qed

lemma Send_inv: "sock_inv s \<Longrightarrow> sock_inv (Send m s)"
proof -
  assume inv: "sock_inv s"
  from SendStreamerInfos_step[of m s] obtain new where
    n: "fWire (SendStreamerInfos m s) = fWire s @ new"
       "distinct (sent_uids new)"
       "fBitsInfo s \<inter> set (sent_uids new) = {}"
       "fBitsInfo s \<union> set (sent_uids new) \<subseteq> fBitsInfo (SendStreamerInfos m s)"
    by blast
  have a: "sock_inv (SendStreamerInfos m s)"
    using inv n unfolding sock_inv_def by (auto simp: sent_uids_append)
  show ?thesis
    using inv a unfolding Send_def Send_with_def sock_inv_def
    by (auto simp: Let_def sent_uids_append)
qed

lemma Send_all_inv: "sock_inv s \<Longrightarrow> sock_inv (Send_all ms s)"
  by (induction ms arbitrary: s) (auto intro: Send_inv)

lemma Send_new_uids:
  "fBitsInfo s \<inter> set (sent_uids (drop (length (fWire s)) (fWire (Send m s)))) = {}"
proof -
  from SendStreamerInfos_step[of m s] obtain new where
    n: "fWire (SendStreamerInfos m s) = fWire s @ new"
       "fBitsInfo s \<inter> set (sent_uids new) = {}"
    by blast
  have "drop (length (fWire s)) (fWire (Send m s)) = [] \<or>
        drop (length (fWire s)) (fWire (Send m s)) = new @ [(ByCaller, m)]"
    using n(1) unfolding Send_def Send_with_def by (auto simp: Let_def)
  then show ?thesis
  proof
    assume "drop (length (fWire s)) (fWire (Send m s)) = []"
    then show ?thesis by simp
  next
    assume "drop (length (fWire s)) (fWire (Send m s)) = new @ [(ByCaller, m)]"
    then show ?thesis using n(2) by (simp add: sent_uids_append)
  qed
qed

text \<open>
  Two messages on a fresh socket, the first with the descriptors numbered 1 and 2, the
  second with those numbered 2 and 3: the descriptor numbered 2 goes out once.
\<close>

lemma Send_all_example:
  "sent_uids (fWire (Send_all
     [\<lparr>fWhat = kMESS_ANY 0, IsReading = False,
        fInfos = Some [\<lparr>fName = ''A'', fClassVersion = 1, fNumber = 1\<rparr>,
                       \<lparr>fName = ''B'', fClassVersion = 1, fNumber = 2\<rparr>],
        fObject = []\<rparr>,
      \<lparr>fWhat = kMESS_ANY 0, IsReading = False,
        fInfos = Some [\<lparr>fName = ''B'', fClassVersion = 1, fNumber = 2\<rparr>,
                       \<lparr>fName = ''C'', fClassVersion = 1, fNumber = 3\<rparr>],
        fObject = []\<rparr>]
     (TSocket_new 5))) = [1, 2, 3]"
  by (simp add: Send_def Send_with_def SendStreamerInfos_def TSocket_new_def messinfo_def
      uids_def TestBitNumber_def SetBitNumber_def Let_def)

text \<open>
  Claim C10. Over the whole lifetime of a socket, from its construction through any
  sequence of \<^verbatim>\<open>Send\<close> calls, no descriptor number occurs twice in the
  \<^verbatim>\<open>kMESS_STREAMERINFO\<close> messages that \<^verbatim>\<open>SendStreamerInfos\<close> has put on the wire, and
  every number sent has its bit set in \<^verbatim>\<open>fBitsInfo\<close>. In any state of the socket, one call
  of \<^verbatim>\<open>SendStreamerInfos\<close> never clears a bit, and the message it sends holds no descriptor
  whose bit was set before the call.
\<close>

theorem SendStreamerInfos_at_most_once:
  "distinct (sent_uids (fWire (Send_all ms (TSocket_new fd)))) \<and>
   set (sent_uids (fWire (Send_all ms (TSocket_new fd))))
     \<subseteq> fBitsInfo (Send_all ms (TSocket_new fd)) \<and>
   fBitsInfo s \<subseteq> fBitsInfo (SendStreamerInfos m s) \<and>
   fBitsInfo s \<inter>
     set (sent_uids (drop (length (fWire s)) (fWire (SendStreamerInfos m s)))) = {}"
proof -
  have "sock_inv (TSocket_new fd)"
    by (simp add: sock_inv_def TSocket_new_def)
  then have "sock_inv (Send_all ms (TSocket_new fd))"
    by (rule Send_all_inv)
  moreover from SendStreamerInfos_step[of m s] obtain new where
    "fWire (SendStreamerInfos m s) = fWire s @ new"
    "fBitsInfo s \<inter> set (sent_uids new) = {}"
    "fBitsInfo s \<union> set (sent_uids new) \<subseteq> fBitsInfo (SendStreamerInfos m s)"
    by blast
  ultimately show ?thesis
    by (simp add: sock_inv_def)
qed

section \<open>Proofs: fused and unfused action sequences\<close>








lemma length_fuse:
  "length (fuse acts) \<le> length acts"
  "length (fuse_run k off n acts) \<le> Suc (length acts)"
  by (induction acts and k off n acts rule: fuse_fuse_run.induct) auto

text \<open>
  The fusion does take place: a class with the members \<^verbatim>\<open>int a; int b; short c;\<close> compiles
  to one array copy of two values and one copy of a primitive, and the fused list writes
  the bytes of one instance in network order.
\<close>

lemma Compile_fuses_example:
  "fCompOpt (Compile \<lparr>fNdata = 0, fNfulldata = 0, fCompOpt = [], fCompFull = [],
     fElements =
       [\<lparr>eName = ''a'', eType = Primitive kInt, eOffset = 0, eLength = 1, eNested = [],
          eTransient = False\<rparr>,
        \<lparr>eName = ''b'', eType = Primitive kInt, eOffset = 4, eLength = 1, eNested = [],
          eTransient = False\<rparr>,
        \<lparr>eName = ''c'', eType = Primitive kShort, eOffset = 8, eLength = 1, eNested = [],
          eTransient = False\<rparr>]\<rparr>)
   = [CopyPrimitiveArray kInt 0 2, CopyPrimitive kShort 8]"
  by (simp add: Compile_def compile_full_def emit_run_def)

lemma WriteBufferAux_example:
  "WriteBufferAux w [] [[1, 2, 3, 4, 5, 6, 7, 8, 9, 10]]
     [CopyPrimitiveArray kInt 0 2, CopyPrimitive kShort 8] 0 2 1 0 0
   = Some [4, 3, 2, 1, 8, 7, 6, 5, 10, 9]"
  by (simp add: WriteBufferAux_def write_instance_def copy_out_def to_network_def
      append_out_def numeral_2_eq_2)







end
